theory Spec2Isabelle
  imports
    Complex_Main
    "HOL-Library.Char_ord"
    "HOL-Library.List_Lexorder"
    "HOL-Library.Sublist"
begin

section \<open>The launch dashboard: data model\<close>

text \<open>
  The program \<^verbatim>\<open>c10m3nb2_plotly_dash.py\<close> reads one table of launches into the module
  global \<^verbatim>\<open>spacex_data\<close> and registers two callbacks, \<^verbatim>\<open>update_success_chart\<close> and
  \<^verbatim>\<open>update_correlation_chart\<close>. Each callback builds a data frame from the table and
  hands it to a plotting call. The model below follows the callbacks up to that frame:
  the frame is what the chart shows.

  One row of the table has the five columns the callbacks read: \<^verbatim>\<open>Launch Site\<close>,
  \<^verbatim>\<open>Payload Mass (kg)\<close>, \<^verbatim>\<open>Booster Version Category\<close>, \<^verbatim>\<open>Booster Version\<close> and
  \<^verbatim>\<open>class\<close>. \<^verbatim>\<open>class\<close> is an integer column, summed and counted, so it is an \<open>int\<close>
  (the name \<open>class\<close> is reserved, the field is \<open>class_flag\<close>).

  The payload mass is only ever compared with the two bounds of the range. The column
  holds 64-bit integers when every entry of the file is an integer, and 64-bit floats
  otherwise; a bound is a Python int or a Python float. A number is therefore an integer
  or a float, the float given by the real it denotes. All entries of a loaded column are
  of one kind; nothing below depends on it.
\<close>

datatype number = IntNum int | FloatNum real

text \<open>The exact value of a number.\<close>

fun value_of :: "number \<Rightarrow> real" where
  "value_of (IntNum n) = real_of_int n"
| "value_of (FloatNum x) = x"

text \<open>
  The conversion of an integer to float64: a float has 53 significant bits, so an
  integer of more bits is rounded to the nearest multiple of its unit in the last place,
  a tie going to the multiple whose last significant bit is zero. \<open>ulp m\<close> is that unit
  for the magnitude \<open>m\<close>: 1 below \<open>2 ^ 53\<close>, and doubling with every further bit.
\<close>

function ulp :: "nat \<Rightarrow> nat" where
  "ulp m = (if m < 2 ^ 53 then 1 else 2 * ulp (m div 2))"
  by pat_completeness auto
termination
  by (relation "measure id") auto

declare ulp.simps [simp del]

definition float64_of_int :: "int \<Rightarrow> int" where
  "float64_of_int n =
     (let m = nat \<bar>n\<bar>; u = ulp m; q = m div u; r = m mod u;
          q' = (if 2 * r > u \<or> (2 * r = u \<and> odd q) then q + 1 else q)
      in sgn n * int (q' * u))"

fun as_float64 :: "number \<Rightarrow> real" where
  "as_float64 (IntNum n) = real_of_int (float64_of_int n)"
| "as_float64 (FloatNum x) = x"

text \<open>
  \<^verbatim>\<open>x <= y\<close> between an entry of the column and a bound: two integers are compared as
  integers; in every other combination the integer side is converted to float64 and the
  two floats are compared. \<^verbatim>\<open>x >= y\<close> is \<open>le_number y x\<close>. The comparison is the exact
  one as long as no conversion rounds, and differs from it beyond \<open>2 ^ 53\<close>.
\<close>

fun le_number :: "number \<Rightarrow> number \<Rightarrow> bool" where
  "le_number (IntNum m) (IntNum n) = (m \<le> n)"
| "le_number (IntNum m) (FloatNum y) = (as_float64 (IntNum m) \<le> y)"
| "le_number (FloatNum x) (IntNum n) = (x \<le> as_float64 (IntNum n))"
| "le_number (FloatNum x) (FloatNum y) = (x \<le> y)"

text \<open>
  An integer of magnitude at most \<open>2 ^ 53\<close> converts to float64 without rounding; a
  float is a float already.
\<close>

fun converts_exactly :: "number \<Rightarrow> bool" where
  "converts_exactly (IntNum n) = (\<bar>n\<bar> \<le> 2 ^ 53)"
| "converts_exactly (FloatNum x) = True"

record LaunchRecord =
  Launch_Site :: string
  Payload_Mass :: number
  Booster_Version_Category :: string
  Booster_Version :: string
  class_flag :: int

text \<open>
  A data frame over the launch columns either has the extra column \<^verbatim>\<open>Outcome\<close> or
  has not. A cell of \<^verbatim>\<open>Outcome\<close> is a label, or missing (\<open>None\<close>) where the
  mapping of \<^verbatim>\<open>class\<close> found no key.
\<close>

datatype frame =
  Plain "LaunchRecord list"
| With_Outcome "(LaunchRecord \<times> string option) list"

fun launch_rows :: "frame \<Rightarrow> LaunchRecord list" where
  "launch_rows (Plain rs) = rs"
| "launch_rows (With_Outcome rs) = map fst rs"

text \<open>
  Frames are objects: the program holds references to them, and
  \<^verbatim>\<open>filtered_data['Outcome'] = ...\<close> writes into the object a reference points at.
  The store maps references to frames; \<open>next_ref\<close> is the next unused reference.
\<close>

record heap =
  cells :: "nat \<Rightarrow> frame"
  next_ref :: nat

definition alloc :: "frame \<Rightarrow> heap \<Rightarrow> nat \<times> heap" where
  "alloc f h = (next_ref h, h\<lparr>cells := (cells h)(next_ref h := f), next_ref := Suc (next_ref h)\<rparr>)"

text \<open>The module global \<^verbatim>\<open>spacex_data\<close> is the first object created.\<close>

definition spacex_data :: nat where
  "spacex_data = 0"

text \<open>
  \<^verbatim>\<open>spacex_data = pd.read_csv(...)\<close>: the store after the module has loaded the table
  whose rows are \<open>D\<close>, in file order.
\<close>

definition read_csv :: "LaunchRecord list \<Rightarrow> heap" where
  "read_csv D = \<lparr>cells = (\<lambda>_. Plain [])(spacex_data := Plain D), next_ref = Suc spacex_data\<rparr>"

datatype error = IndexError

section \<open>The data-frame operations the callbacks use\<close>

text \<open>
  \<^verbatim>\<open>unique()\<close>: the distinct values of a column in order of first appearance.
\<close>

fun unique_from :: "'a list \<Rightarrow> 'a list \<Rightarrow> 'a list" where
  "unique_from seen [] = []"
| "unique_from seen (x # xs) =
     (if x \<in> set seen then unique_from seen xs else x # unique_from (x # seen) xs)"

definition unique :: "'a list \<Rightarrow> 'a list" where
  "unique xs = unique_from [] xs"

text \<open>
  \<^verbatim>\<open>df[mask]\<close> with a boolean mask: a new frame with the rows where the mask holds,
  in their order. The mask is computed row by row from the launch columns.
\<close>

fun select_rows :: "(LaunchRecord \<Rightarrow> bool) \<Rightarrow> frame \<Rightarrow> frame" where
  "select_rows p (Plain rs) = Plain (filter p rs)"
| "select_rows p (With_Outcome rs) = With_Outcome (filter (\<lambda>row. p (fst row)) rs)"

definition getitem_mask :: "(LaunchRecord \<Rightarrow> bool) \<Rightarrow> nat \<Rightarrow> heap \<Rightarrow> nat \<times> heap" where
  "getitem_mask p r h = alloc (select_rows p (cells h r)) h"

text \<open>
  \<^verbatim>\<open>df['Outcome'] = values\<close>: writes the column into the frame the reference points
  at, in place.
\<close>

definition setitem_Outcome :: "nat \<Rightarrow> string option list \<Rightarrow> heap \<Rightarrow> heap" where
  "setitem_Outcome r vs h = h\<lparr>cells := (cells h)(r := With_Outcome (zip (launch_rows (cells h r)) vs))\<rparr>"

text \<open>
  \<^verbatim>\<open>.map({1: "Success", 0: "Failure"})\<close>: a value that is not a key of the dictionary
  maps to a missing cell.
\<close>

definition map_outcome :: "int \<Rightarrow> string option" where
  "map_outcome v = (if v = 1 then Some ''Success'' else if v = 0 then Some ''Failure'' else None)"

text \<open>
  \<^verbatim>\<open>groupby('Launch Site')\<close> forms one group per distinct site and, by its default
  \<^verbatim>\<open>sort=True\<close>, lists the groups in ascending order of the site name (strings compare
  lexicographically, character by character). \<^verbatim>\<open>['class'].sum().reset_index()\<close> gives one
  row per group with the sum of \<^verbatim>\<open>class\<close>, and \<^verbatim>\<open>.size().reset_index(name='total')\<close>
  one row per group with its number of rows.
\<close>

definition group_keys :: "LaunchRecord list \<Rightarrow> string list" where
  "group_keys rs = sort (unique (map Launch_Site rs))"

definition groupby_sum :: "LaunchRecord list \<Rightarrow> (string \<times> int) list" where
  "groupby_sum rs =
     map (\<lambda>k. (k, sum_list (map class_flag (filter (\<lambda>r. Launch_Site r = k) rs)))) (group_keys rs)"

definition groupby_size :: "LaunchRecord list \<Rightarrow> (string \<times> nat) list" where
  "groupby_size rs =
     map (\<lambda>k. (k, length (filter (\<lambda>r. Launch_Site r = k) rs))) (group_keys rs)"

text \<open>
  \<^verbatim>\<open>pd.merge(left, right, on='Launch Site')\<close>: the inner join on the key. Every left
  row, in the left order, is paired with every right row of the same key.
\<close>

definition merge :: "(string \<times> int) list \<Rightarrow> (string \<times> nat) list \<Rightarrow> (string \<times> int \<times> nat) list" where
  "merge left right =
     concat (map (\<lambda>l. map (\<lambda>r. (fst l, snd l, snd r)) (filter (\<lambda>r. fst r = fst l) right)) left)"

text \<open>
  \<^verbatim>\<open>value_counts()\<close>: one entry per distinct value with the number of its occurrences.
  The values are collected in order of first appearance and the entries are then sorted
  by count, largest first. The descending sort reverses the entries, sorts them
  ascending and reverses the result, so entries of equal count keep their order of first
  appearance. A value that does not occur has no entry.
\<close>

definition value_counts :: "int list \<Rightarrow> (int \<times> nat) list" where
  "value_counts vs = rev (sort_key snd (rev (map (\<lambda>v. (v, count_list vs v)) (unique vs))))"

section \<open>The callbacks\<close>

text \<open>
  The frame \<^verbatim>\<open>update_success_chart\<close> passes to the pie chart: \<^verbatim>\<open>result_df\<close> with the
  columns site, \<^verbatim>\<open>class\<close> (successes) and \<^verbatim>\<open>total\<close>, or \<^verbatim>\<open>outcomes\<close> with the columns
  \<^verbatim>\<open>Outcome\<close> and \<^verbatim>\<open>Count\<close>.
\<close>

datatype pie_data =
  Result_df "(string \<times> int \<times> nat) list"
| Outcomes "(string option \<times> nat) list"

definition update_success_chart :: "string \<Rightarrow> heap \<Rightarrow> pie_data \<times> heap" where
  "update_success_chart selected_site h =
     (if selected_site = ''ALL'' then
        let success_counts = groupby_sum (launch_rows (cells h spacex_data));
            total_counts = groupby_size (launch_rows (cells h spacex_data));
            result_df = merge success_counts total_counts
        in (Result_df result_df, h)
      else
        let (site_data, h1) = getitem_mask (\<lambda>r. Launch_Site r = selected_site) spacex_data h;
            outcomes = value_counts (map class_flag (launch_rows (cells h1 site_data)));
            outcomes = map (\<lambda>(v, c). (map_outcome v, c)) outcomes
        in (Outcomes outcomes, h1))"

text \<open>
  \<^verbatim>\<open>update_correlation_chart\<close> reads \<^verbatim>\<open>payload_range[0]\<close> and \<^verbatim>\<open>payload_range[1]\<close>;
  a list with fewer than two entries raises. The mask is
  \<^verbatim>\<open>(column >= payload_range[0]) & (column <= payload_range[1])\<close>. The frame passed to the
  scatter plot is
  \<^verbatim>\<open>filtered_data\<close> after the column \<^verbatim>\<open>Outcome\<close> has been written into it.
\<close>

definition update_correlation_chart :: "string \<Rightarrow> number list \<Rightarrow> heap \<Rightarrow> (error + frame) \<times> heap" where
  "update_correlation_chart selected_site payload_range h =
     (case payload_range of
        lo # hi # _ \<Rightarrow>
          let (filtered_data, h1) =
                getitem_mask (\<lambda>r. le_number lo (Payload_Mass r) \<and> le_number (Payload_Mass r) hi)
                  spacex_data h;
              (filtered_data, h2) =
                (if selected_site \<noteq> ''ALL''
                 then getitem_mask (\<lambda>r. Launch_Site r = selected_site) filtered_data h1
                 else (filtered_data, h1));
              h3 = setitem_Outcome filtered_data
                     (map (\<lambda>r. map_outcome (class_flag r)) (launch_rows (cells h2 filtered_data))) h2
          in (Inr (cells h3 filtered_data), h3)
      | _ \<Rightarrow> (Inl IndexError, h))"

text \<open>\<^verbatim>\<open>launch_sites\<close>: the distinct sites of the table, computed once at load.\<close>

definition launch_sites :: "heap \<Rightarrow> string list" where
  "launch_sites h = unique (map Launch_Site (launch_rows (cells h spacex_data)))"

text \<open>
  The two transforms as functions of the table: what each callback shows when the module
  has loaded the rows \<open>D\<close>. \<open>correlate\<close> passes the slider's pair \<open>[a, b]\<close>.
\<close>

definition summarize :: "LaunchRecord list \<Rightarrow> string \<Rightarrow> pie_data" where
  "summarize D selected_site = fst (update_success_chart selected_site (read_csv D))"

definition correlate :: "LaunchRecord list \<Rightarrow> string \<Rightarrow> number \<Rightarrow> number \<Rightarrow> error + frame" where
  "correlate D selected_site a b = fst (update_correlation_chart selected_site [a, b] (read_csv D))"

text \<open>The three-row table of the worked example.\<close>

definition example_D :: "LaunchRecord list" where
  "example_D =
     [\<lparr>Launch_Site = ''A'', Payload_Mass = IntNum 2000, Booster_Version_Category = ''v1'',
       Booster_Version = ''v1'', class_flag = 1\<rparr>,
      \<lparr>Launch_Site = ''A'', Payload_Mass = IntNum 9000, Booster_Version_Category = ''v2'',
       Booster_Version = ''v2'', class_flag = 0\<rparr>,
      \<lparr>Launch_Site = ''B'', Payload_Mass = IntNum 500, Booster_Version_Category = ''v1'',
       Booster_Version = ''v1'', class_flag = 1\<rparr>]"

text \<open>
  A table of one row whose payload is the integer \<open>2 ^ 53 + 1\<close>, the least positive
  integer that float64 does not hold.
\<close>

definition big_D :: "LaunchRecord list" where
  "big_D = [\<lparr>Launch_Site = ''A'', Payload_Mass = IntNum 9007199254740993,
             Booster_Version_Category = ''v1'', Booster_Version = ''v1'', class_flag = 1\<rparr>]"

section \<open>Facts about the data-frame operations\<close>

lemma set_unique_from: "set (unique_from seen xs) = set xs - set seen"
  by (induction xs arbitrary: seen) auto

lemma distinct_unique_from: "distinct (unique_from seen xs)"
  by (induction xs arbitrary: seen) (auto simp: set_unique_from)

lemma set_unique: "set (unique xs) = set xs"
  by (simp add: unique_def set_unique_from)

lemma distinct_unique: "distinct (unique xs)"
  by (simp add: unique_def distinct_unique_from)

lemma set_group_keys: "set (group_keys rs) = Launch_Site ` set rs"
  by (simp add: group_keys_def set_unique)

lemma distinct_group_keys: "distinct (group_keys rs)"
  by (simp add: group_keys_def distinct_unique)

lemma sorted_group_keys: "sorted (group_keys rs)"
  by (simp add: group_keys_def)

lemma filter_key_single:
  "distinct ks \<Longrightarrow> k \<in> set ks \<Longrightarrow> filter (\<lambda>r. fst r = k) (map (\<lambda>k. (k, g k)) ks) = [(k, g k)]"
  by (induction ks) (auto simp: filter_empty_conv)

lemma merge_same_keys_aux:
  assumes "distinct ks" "set ls \<subseteq> set ks"
  shows "merge (map (\<lambda>k. (k, f k)) ls) (map (\<lambda>k. (k, g k)) ks) = map (\<lambda>k. (k, f k, g k)) ls"
  using assms(2)
proof (induction ls)
  case Nil
  show ?case by (simp add: merge_def)
next
  case (Cons l ls)
  then have "l \<in> set ks" and sub: "set ls \<subseteq> set ks" by auto
  with assms(1) have one: "filter (\<lambda>r. fst r = l) (map (\<lambda>k. (k, g k)) ks) = [(l, g l)]"
    by (simp add: filter_key_single)
  from Cons.IH [OF sub] one show ?case by (simp add: merge_def)
qed

lemma merge_same_keys:
  "distinct ks \<Longrightarrow> merge (map (\<lambda>k. (k, f k)) ks) (map (\<lambda>k. (k, g k)) ks) = map (\<lambda>k. (k, f k, g k)) ks"
  by (rule merge_same_keys_aux) auto

lemma success_chart_ALL:
  "update_success_chart ''ALL'' h =
     (Result_df (map (\<lambda>k. (k, sum_list (map class_flag (filter (\<lambda>r. Launch_Site r = k) (launch_rows (cells h spacex_data)))),
                          length (filter (\<lambda>r. Launch_Site r = k) (launch_rows (cells h spacex_data)))))
                  (group_keys (launch_rows (cells h spacex_data)))), h)"
  by (simp add: update_success_chart_def groupby_sum_def groupby_size_def merge_same_keys distinct_group_keys)

lemma success_chart_site:
  "selected_site \<noteq> ''ALL'' \<Longrightarrow> fst (update_success_chart selected_site h) =
     Outcomes (map (\<lambda>(v, c). (map_outcome v, c))
       (value_counts (map class_flag (filter (\<lambda>r. Launch_Site r = selected_site) (launch_rows (cells h spacex_data))))))"
  by (cases "cells h spacex_data") (simp_all add: update_success_chart_def getitem_mask_def alloc_def filter_map comp_def)

lemma launch_rows_read_csv: "launch_rows (cells (read_csv D) spacex_data) = D"
  by (simp add: read_csv_def)

lemma small_ulp: "m < 2 ^ 53 \<Longrightarrow> ulp m = 1"
  by (simp add: ulp.simps)

lemma ulp_2_53: "ulp (2 ^ 53) = 2"
  by (simp add: ulp.simps)

lemma float64_of_int_small: "\<bar>n\<bar> \<le> 2 ^ 53 \<Longrightarrow> float64_of_int n = n"
proof (cases "\<bar>n\<bar> = 2 ^ 53")
  case True
  then have m: "nat \<bar>n\<bar> = 2 ^ 53" by simp
  have "float64_of_int n = sgn n * int (2 ^ 53)"
    unfolding float64_of_int_def Let_def m ulp_2_53 by simp
  with True show ?thesis by (cases "n \<ge> 0") auto
next
  case False
  assume "\<bar>n\<bar> \<le> 2 ^ 53"
  with False have "\<bar>n\<bar> < 2 ^ 53" by simp
  then have "nat \<bar>n\<bar> < 2 ^ 53" by (simp add: nat_less_iff)
  then have u: "ulp (nat \<bar>n\<bar>) = 1" by (rule small_ulp)
  have "float64_of_int n = sgn n * \<bar>n\<bar>"
    unfolding float64_of_int_def Let_def u by simp
  then show ?thesis by (simp add: mult_sgn_abs)
qed

lemma as_float64_exact: "converts_exactly x \<Longrightarrow> as_float64 x = value_of x"
  by (cases x) (simp_all add: float64_of_int_small)

lemma le_number_exact:
  "converts_exactly x \<Longrightarrow> converts_exactly y \<Longrightarrow> le_number x y = (value_of x \<le> value_of y)"
  by (cases x; cases y) (simp_all add: float64_of_int_small)

lemma ulp_example: "ulp 9007199254740993 = 2"
  by (simp add: ulp.simps)

lemma float64_of_int_example: "float64_of_int 9007199254740993 = 9007199254740992"
  by (simp add: float64_of_int_def Let_def ulp_example)

lemma count_list_map_filter: "count_list (map f xs) v = length (filter (\<lambda>x. f x = v) xs)"
  by (induction xs) auto

lemma zip_map_self: "zip xs (map f xs) = map (\<lambda>x. (x, f x)) xs"
  by (induction xs) auto

lemma correlate_eq:
  "correlate D s a b = Inr (With_Outcome (map (\<lambda>r. (r, map_outcome (class_flag r)))
      (filter (\<lambda>r. le_number a (Payload_Mass r) \<and> le_number (Payload_Mass r) b \<and>
                   (s = ''ALL'' \<or> Launch_Site r = s)) D)))"
proof (cases "s = ''ALL''")
  case True
  then show ?thesis
    by (simp add: correlate_def update_correlation_chart_def getitem_mask_def alloc_def read_csv_def
        setitem_Outcome_def spacex_data_def zip_map_self)
next
  case False
  have "filter (\<lambda>r. Launch_Site r = s)
          (filter (\<lambda>r. le_number a (Payload_Mass r) \<and> le_number (Payload_Mass r) b) D)
      = filter (\<lambda>r. le_number a (Payload_Mass r) \<and> le_number (Payload_Mass r) b \<and>
                     (s = ''ALL'' \<or> Launch_Site r = s)) D"
    using False by (auto intro: filter_cong)
  with False show ?thesis
    by (simp add: correlate_def update_correlation_chart_def getitem_mask_def alloc_def read_csv_def
        setitem_Outcome_def spacex_data_def zip_map_self)
qed

lemma insort_key_sum: "sum_list (map f (insort_key k x xs)) = f x + sum_list (map f xs)"
  for f :: "'a \<Rightarrow> nat"
  by (induction xs) auto

lemma sort_key_sum: "sum_list (map f (sort_key k xs)) = sum_list (map f xs)"
  for f :: "'a \<Rightarrow> nat"
  by (induction xs) (auto simp: insort_key_sum)

lemma rev_sum: "sum_list (map f (rev xs)) = sum_list (map f xs)"
  for f :: "'a \<Rightarrow> nat"
  by (induction xs) auto

lemma set_value_counts: "set (value_counts vs) = (\<lambda>v. (v, count_list vs v)) ` set vs"
  by (simp add: value_counts_def set_unique)

lemma sum_value_counts: "sum_list (map snd (value_counts vs)) = length vs"
proof -
  have "sum_list (map snd (value_counts vs)) =
        sum_list (map snd (map (\<lambda>v. (v, count_list vs v)) (unique vs)))"
    unfolding value_counts_def by (simp only: rev_sum sort_key_sum)
  also have "\<dots> = sum_list (map (count_list vs) (unique vs))"
    by (simp add: comp_def)
  also have "\<dots> = sum (count_list vs) (set vs)"
    by (simp add: sum_list_distinct_conv_sum_set distinct_unique set_unique)
  also have "\<dots> = length vs"
    by (simp add: sum_count_set)
  finally show ?thesis .
qed

lemma insort_key_map_distinct:
  "distinct (map g (insort_key k x xs)) = (g x \<notin> g ` set xs \<and> distinct (map g xs))"
  by (induction xs) (auto simp: set_insort_key)

lemma sort_key_map_distinct: "distinct (map g (sort_key k xs)) = distinct (map g xs)"
  by (induction xs) (auto simp: insort_key_map_distinct)

lemma distinct_map_rev: "distinct (map g (rev xs)) = distinct (map g xs)"
  by (simp flip: rev_map)

lemma distinct_value_counts: "distinct (map fst (value_counts vs))"
proof -
  have "map fst (map (\<lambda>v. (v, count_list vs v)) (unique vs)) = unique vs"
    by (simp add: comp_def)
  then have "distinct (map fst (map (\<lambda>v. (v, count_list vs v)) (unique vs)))"
    by (simp only: distinct_unique)
  then show ?thesis
    unfolding value_counts_def by (simp only: distinct_map_rev sort_key_map_distinct)
qed

lemma heap_success: "spacex_data < next_ref h \<Longrightarrow>
   cells (snd (update_success_chart sel h)) spacex_data = cells h spacex_data"
  by (simp add: update_success_chart_def getitem_mask_def alloc_def split: prod.splits)

lemma heap_correlation: "spacex_data < next_ref h \<Longrightarrow>
   cells (snd (update_correlation_chart sel rng h)) spacex_data = cells h spacex_data"
  by (auto simp: update_correlation_chart_def getitem_mask_def alloc_def setitem_Outcome_def Let_def split: list.splits prod.splits)

section \<open>The transforms\<close>

lemma sum_list_delta_absent:
  "k0 \<notin> set ks \<Longrightarrow> (\<Sum>k\<leftarrow>ks. if k0 = k then c else 0) = (0::int)"
  by (induction ks) auto

lemma sum_list_delta_key:
  "distinct ks \<Longrightarrow> k0 \<in> set ks \<Longrightarrow> (\<Sum>k\<leftarrow>ks. if k0 = k then c else 0) = (c::int)"
  by (induction ks) (auto simp: sum_list_delta_absent)

lemma sum_list_by_group:
  fixes g :: "'a \<Rightarrow> int"
  assumes "distinct ks"
  shows "f ` set xs \<subseteq> set ks \<Longrightarrow>
    (\<Sum>k\<leftarrow>ks. sum_list (map g (filter (\<lambda>x. f x = k) xs))) = sum_list (map g xs)"
proof (induction xs)
  case Nil
  show ?case by simp
next
  case (Cons x xs)
  then have mem: "f x \<in> set ks" and sub: "f ` set xs \<subseteq> set ks" by auto
  have "(\<Sum>k\<leftarrow>ks. sum_list (map g (filter (\<lambda>y. f y = k) (x # xs))))
      = (\<Sum>k\<leftarrow>ks. (if f x = k then g x else 0) + sum_list (map g (filter (\<lambda>y. f y = k) xs)))"
    by (rule arg_cong [where f = sum_list], rule map_cong) auto
  also have "\<dots> = (\<Sum>k\<leftarrow>ks. if f x = k then g x else 0)
                  + (\<Sum>k\<leftarrow>ks. sum_list (map g (filter (\<lambda>y. f y = k) xs)))"
    by (simp add: sum_list_addf)
  also have "\<dots> = g x + sum_list (map g xs)"
    using assms mem Cons.IH [OF sub] by (simp add: sum_list_delta_key)
  finally show ?case by simp
qed

lemma sum_flags_count:
  "\<forall>r\<in>set rs. class_flag r \<in> {0, 1} \<Longrightarrow>
     sum_list (map class_flag rs) = int (length (filter (\<lambda>r. class_flag r = 1) rs))"
  by (induction rs) auto

lemma sum_flags_bounds:
  "\<forall>r\<in>set rs. class_flag r \<in> {0, 1} \<Longrightarrow>
     0 \<le> sum_list (map class_flag rs) \<and> sum_list (map class_flag rs) \<le> int (length rs)"
  by (induction rs) auto

lemma summarize_ALL:
  "summarize D ''ALL'' =
     Result_df (map (\<lambda>k. (k, sum_list (map class_flag (filter (\<lambda>r. Launch_Site r = k) D)),
                             length (filter (\<lambda>r. Launch_Site r = k) D))) (group_keys D))"
  by (simp add: summarize_def success_chart_ALL launch_rows_read_csv)

lemma summarize_site:
  "s \<noteq> ''ALL'' \<Longrightarrow> summarize D s =
     Outcomes (map (\<lambda>(v, c). (map_outcome v, c))
       (value_counts (map class_flag (filter (\<lambda>r. Launch_Site r = s) D))))"
  by (simp add: summarize_def success_chart_site launch_rows_read_csv)

text \<open>
  Claim C2. For a table whose \<^verbatim>\<open>class\<close> values are all 0 or 1, the success totals of
  \<open>summarize D ''ALL''\<close> add up to the number of rows of \<open>D\<close> whose \<^verbatim>\<open>class\<close> is 1.
\<close>

theorem summarize_all_success_total:
  assumes "\<forall>r\<in>set D. class_flag r \<in> {0, 1}"
  shows "\<exists>t. summarize D ''ALL'' = Result_df t \<and>
           sum_list (map (\<lambda>(site, success_total, record_total). success_total) t)
             = int (length (filter (\<lambda>r. class_flag r = 1) D))"
proof -
  let ?t = "map (\<lambda>k. (k, sum_list (map class_flag (filter (\<lambda>r. Launch_Site r = k) D)),
                             length (filter (\<lambda>r. Launch_Site r = k) D))) (group_keys D)"
  have "sum_list (map (\<lambda>(site, success_total, record_total). success_total) ?t)
      = (\<Sum>k\<leftarrow>group_keys D. sum_list (map class_flag (filter (\<lambda>r. Launch_Site r = k) D)))"
    by (simp add: comp_def)
  also have "\<dots> = sum_list (map class_flag D)"
    by (rule sum_list_by_group) (simp_all add: distinct_group_keys set_group_keys)
  also have "\<dots> = int (length (filter (\<lambda>r. class_flag r = 1) D))"
    using assms by (rule sum_flags_count)
  finally show ?thesis using summarize_ALL [of D] by blast
qed

text \<open>
  Claim C10. For a table whose \<^verbatim>\<open>class\<close> values are all 0 or 1, every tuple of
  \<open>summarize D ''ALL''\<close> has \<open>0 \<le> success_total \<le> record_total\<close> and
  \<open>record_total \<ge> 1\<close>, and no site occurs in two tuples.
\<close>

theorem summarize_all_tuple_invariant:
  assumes "\<forall>r\<in>set D. class_flag r \<in> {0, 1}"
  shows "\<exists>t. summarize D ''ALL'' = Result_df t \<and>
           (\<forall>(site, success_total, record_total) \<in> set t.
               0 \<le> success_total \<and> success_total \<le> int record_total \<and> 1 \<le> record_total) \<and>
           distinct (map fst t)"
proof -
  let ?rows = "\<lambda>k. filter (\<lambda>r. Launch_Site r = k) D"
  let ?t = "map (\<lambda>k. (k, sum_list (map class_flag (?rows k)), length (?rows k))) (group_keys D)"
  have bounds: "0 \<le> sum_list (map class_flag (?rows k)) \<and>
        sum_list (map class_flag (?rows k)) \<le> int (length (?rows k))" for k
    using assms by (intro sum_flags_bounds) simp
  have nonempty: "1 \<le> length (?rows k)" if "k \<in> set (group_keys D)" for k
  proof -
    from that obtain r where "r \<in> set D" "Launch_Site r = k" by (auto simp: set_group_keys)
    then have "r \<in> set (?rows k)" by simp
    then have "?rows k \<noteq> []" by force 
    then show ?thesis by (simp add: Suc_le_eq)
  qed
  have "\<forall>(site, success_total, record_total) \<in> set ?t.
          0 \<le> success_total \<and> success_total \<le> int record_total \<and> 1 \<le> record_total"
    using bounds nonempty by auto
  moreover have "distinct (map fst ?t)"
    by (simp add: comp_def distinct_group_keys)
  ultimately show ?thesis using summarize_ALL [of D] by blast
qed

text \<open>
  Claim C8. \<open>summarize D ''ALL''\<close> has one tuple per key of the grouping, with the sum
  of \<^verbatim>\<open>class\<close> over the site's rows and the number of those rows. The keys are
  exactly the sites of \<open>D\<close>, each once, in the order of the grouping, which is ascending
  site name; so the order is a function of the table alone. A second call, made in the
  store the first call leaves, shows the same tuples in the same order.
\<close>

theorem summarize_all_one_tuple_per_site:
  "summarize D ''ALL'' =
     Result_df (map (\<lambda>k. (k, sum_list (map class_flag (filter (\<lambda>r. Launch_Site r = k) D)),
                             length (filter (\<lambda>r. Launch_Site r = k) D))) (group_keys D))
   \<and> set (group_keys D) = Launch_Site ` set D \<and> distinct (group_keys D) \<and> sorted (group_keys D)
   \<and> fst (update_success_chart ''ALL'' (snd (update_success_chart ''ALL'' (read_csv D))))
       = summarize D ''ALL''"
  by (simp add: summarize_ALL set_group_keys distinct_group_keys sorted_group_keys)
     (simp add: summarize_def success_chart_ALL launch_rows_read_csv)

lemma distinct_map_inj: "inj_on f (set xs) \<Longrightarrow> distinct xs \<Longrightarrow> distinct (map f xs)"
  by (simp add: distinct_map)

lemma map_outcome_label:
  "v \<in> {0, 1} \<Longrightarrow> map_outcome v \<in> {Some ''Success'', Some ''Failure''}"
  by (auto simp: map_outcome_def)

text \<open>
  Claim C3. For a site \<open>s\<close> other than \<open>''ALL''\<close> and a table whose \<^verbatim>\<open>class\<close> values are
  all 0 or 1, \<open>summarize D s\<close> is the outcome frame, and
  \<^item> every entry is labelled \<open>Success\<close> or \<open>Failure\<close>;
  \<^item> \<open>Success\<close> has an entry with count \<open>c\<close> exactly when \<open>c\<close> is the number of rows of
    site \<open>s\<close> with \<^verbatim>\<open>class\<close> 1 and \<open>c\<close> is positive, and \<open>Failure\<close> likewise with the
    rows of \<^verbatim>\<open>class\<close> 0: a count is the count of the rows carrying that label, and a
    label that would count zero has no entry;
  \<^item> the counts add up to the number of rows of \<open>D\<close> at site \<open>s\<close>;
  \<^item> no label occurs twice.
\<close>

theorem summarize_site_outcomes:
  assumes "s \<noteq> ''ALL''" and "\<forall>r\<in>set D. class_flag r \<in> {0, 1}"
  shows "\<exists>es. summarize D s = Outcomes es \<and>
           (\<forall>(label, count) \<in> set es. label \<in> {Some ''Success'', Some ''Failure''}) \<and>
           (\<forall>c. (Some ''Success'', c) \<in> set es \<longleftrightarrow>
                  c = length (filter (\<lambda>r. Launch_Site r = s \<and> class_flag r = 1) D) \<and> 0 < c) \<and>
           (\<forall>c. (Some ''Failure'', c) \<in> set es \<longleftrightarrow>
                  c = length (filter (\<lambda>r. Launch_Site r = s \<and> class_flag r = 0) D) \<and> 0 < c) \<and>
           sum_list (map snd es) = length (filter (\<lambda>r. Launch_Site r = s) D) \<and>
           distinct (map fst es)"
proof -
  let ?vs = "map class_flag (filter (\<lambda>r. Launch_Site r = s) D)"
  let ?es = "map (\<lambda>(v, c). (map_outcome v, c)) (value_counts ?vs)"
  have flags: "v \<in> {0, 1}" if "v \<in> set ?vs" for v
    using that assms(2) by auto
  have count: "count_list ?vs v = length (filter (\<lambda>r. Launch_Site r = s \<and> class_flag r = v) D)" for v
    by (simp add: count_list_map_filter conj_commute)
  have entries: "set ?es = (\<lambda>v. (map_outcome v, count_list ?vs v)) ` set ?vs"
    by (simp only: set_map set_value_counts image_image prod.case)
  have labels: "\<forall>(label, count) \<in> set ?es. label \<in> {Some ''Success'', Some ''Failure''}"
    unfolding entries using flags map_outcome_label by blast
  have entry: "(map_outcome w, c) \<in> set ?es \<longleftrightarrow>
        c = length (filter (\<lambda>r. Launch_Site r = s \<and> class_flag r = w) D) \<and> 0 < c"
    if w: "w \<in> {0, 1}" for w c
  proof
    assume "(map_outcome w, c) \<in> set ?es"
    then have "(map_outcome w, c) \<in> (\<lambda>v. (map_outcome v, count_list ?vs v)) ` set ?vs"
      by (simp only: entries)
    then obtain v where mem: "v \<in> set ?vs"
      and eq: "(map_outcome w, c) = (map_outcome v, count_list ?vs v)"
      by (rule imageE)
    from eq have "map_outcome v = map_outcome w" and "c = count_list ?vs v"
      by (simp_all only: prod.inject)
    with mem have v: "v \<in> set ?vs" "map_outcome v = map_outcome w" "c = count_list ?vs v"
      by blast+
    from v(1) have "v \<in> {0, 1}" by (rule flags)
    with w v(2) have "v = w" by (auto simp: map_outcome_def split: if_splits)
    moreover from v(1) have "count_list ?vs v \<noteq> 0"
      by (simp only: count_list_0_iff) simp
    ultimately show "c = length (filter (\<lambda>r. Launch_Site r = s \<and> class_flag r = w) D) \<and> 0 < c"
      using v(3) count [of w] by simp
  next
    assume c: "c = length (filter (\<lambda>r. Launch_Site r = s \<and> class_flag r = w) D) \<and> 0 < c"
    then have "0 < length (filter (\<lambda>r. Launch_Site r = s \<and> class_flag r = w) D)" by blast
    then have "0 < count_list ?vs w" by (simp only: count [of w])
    then have "count_list ?vs w \<noteq> 0" by (rule gr_implies_not0)
    then have "w \<in> set ?vs" by (simp only: count_list_0_iff) simp
    moreover have "c = count_list ?vs w" using c count [of w] by simp
    ultimately show "(map_outcome w, c) \<in> set ?es"
      unfolding entries by blast
  qed
  have success: "\<forall>c. (Some ''Success'', c) \<in> set ?es \<longleftrightarrow>
        c = length (filter (\<lambda>r. Launch_Site r = s \<and> class_flag r = 1) D) \<and> 0 < c"
    using entry [of 1] by (simp add: map_outcome_def)
  have failure: "\<forall>c. (Some ''Failure'', c) \<in> set ?es \<longleftrightarrow>
        c = length (filter (\<lambda>r. Launch_Site r = s \<and> class_flag r = 0) D) \<and> 0 < c"
    using entry [of 0] by (simp add: map_outcome_def)
  have total: "sum_list (map snd ?es) = length (filter (\<lambda>r. Launch_Site r = s) D)"
  proof -
    have "map snd ?es = map snd (value_counts ?vs)" by (simp add: comp_def case_prod_beta)
    then show ?thesis by (simp only: sum_value_counts length_map)
  qed
  have dist: "distinct (map fst ?es)"
  proof -
    have "set (map fst (value_counts ?vs)) = set ?vs"
      by (simp only: set_map set_value_counts image_image fst_conv image_ident)
    with flags have "set (map fst (value_counts ?vs)) \<subseteq> {0, 1}"
      by blast
    then have "inj_on map_outcome (set (map fst (value_counts ?vs)))"
      by (rule inj_on_subset [rotated]) (simp add: map_outcome_def)
    then have d: "distinct (map map_outcome (map fst (value_counts ?vs)))"
      using distinct_value_counts [of ?vs] by (rule distinct_map_inj)
    have e: "map fst ?es = map map_outcome (map fst (value_counts ?vs))"
      by (simp add: comp_def case_prod_beta)
    from d show ?thesis unfolding e .
  qed
  from labels success failure total dist summarize_site [OF assms(1), of D]
  show ?thesis by blast
qed

lemma value_counts_Nil: "value_counts [] = []"
  by (simp add: value_counts_def unique_def)

text \<open>
  Claim C5. For a selected site that is neither \<open>''ALL''\<close> nor one of the table's
  \<^verbatim>\<open>launch_sites\<close>, \<open>summarize\<close> returns the outcome frame without entries; it does
  not raise.
\<close>

theorem summarize_unknown_site_empty:
  assumes "s \<noteq> ''ALL''" and "s \<notin> set (launch_sites (read_csv D))"
  shows "summarize D s = Outcomes []"
proof -
  from assms(2) have "s \<notin> Launch_Site ` set D"
    by (simp add: launch_sites_def launch_rows_read_csv set_unique)
  then have "filter (\<lambda>r. Launch_Site r = s) D = []"
    by (auto simp: filter_empty_conv)
  then show ?thesis using assms(1) by (simp add: summarize_site value_counts_Nil)
qed

text \<open>
  Claim C4, as amended. When the integers among the payloads and the two bounds have
  magnitude at most \<open>2 ^ 53\<close>, an inverted range, \<open>a > b\<close>, gives the frame without rows,
  for every site; the call does not raise.
\<close>

theorem correlate_inverted_range_empty:
  assumes "value_of a > value_of b"
    and "converts_exactly a" and "converts_exactly b"
    and "\<forall>r\<in>set D. converts_exactly (Payload_Mass r)"
  shows "correlate D s a b = Inr (With_Outcome [])"
proof -
  have "\<not> (le_number a (Payload_Mass r) \<and> le_number (Payload_Mass r) b)" if "r \<in> set D" for r
  proof -
    from that assms(4) have "converts_exactly (Payload_Mass r)" by blast
    with assms(1-3) show ?thesis by (simp add: le_number_exact)
  qed
  then have "filter (\<lambda>r. le_number a (Payload_Mass r) \<and> le_number (Payload_Mass r) b \<and>
                         (s = ''ALL'' \<or> Launch_Site r = s)) D = []"
    by (simp only: filter_empty_conv) blast
  then show ?thesis by (simp only: correlate_eq list.map)
qed

text \<open>
  Claim C1, as amended. When the integers among the payloads and the two bounds have
  magnitude at most \<open>2 ^ 53\<close>, every row \<open>correlate\<close> returns has its payload mass
  between \<open>a\<close> and \<open>b\<close>, both ends included, and its site equal to \<open>s\<close> unless \<open>s\<close> is
  \<open>''ALL''\<close>. The call returns a frame and does not raise. The bounds need not be
  ordered.
\<close>

theorem correlate_rows_within_range_and_site:
  assumes "converts_exactly a" and "converts_exactly b"
    and "\<forall>r\<in>set D. converts_exactly (Payload_Mass r)"
  shows "\<exists>rows. correlate D s a b = Inr (With_Outcome rows) \<and>
     (\<forall>row \<in> set rows. value_of a \<le> value_of (Payload_Mass (fst row)) \<and>
                        value_of (Payload_Mass (fst row)) \<le> value_of b \<and>
                        (s = ''ALL'' \<or> Launch_Site (fst row) = s))"
proof -
  have "value_of a \<le> value_of (Payload_Mass r) \<and> value_of (Payload_Mass r) \<le> value_of b"
    if "r \<in> set D" "le_number a (Payload_Mass r)" "le_number (Payload_Mass r) b" for r
  proof -
    from that(1) assms(3) have "converts_exactly (Payload_Mass r)" by blast
    with assms(1,2) that(2,3) show ?thesis by (simp add: le_number_exact)
  qed
  then show ?thesis by (auto simp: correlate_eq)
qed

text \<open>
  Claim C7. The rows of \<open>correlate D s a b\<close> are the rows of \<open>D\<close> that pass the range
  and site tests of the callback, in the order they have in \<open>D\<close>: the launch columns of
  the result are the filter of \<open>D\<close>, hence a subsequence of \<open>D\<close>. This holds for every
  pair of bounds and every table.
\<close>

theorem correlate_preserves_order:
  "\<exists>rows. correlate D s a b = Inr (With_Outcome rows) \<and>
     map fst rows = filter (\<lambda>r. le_number a (Payload_Mass r) \<and> le_number (Payload_Mass r) b \<and>
                               (s = ''ALL'' \<or> Launch_Site r = s)) D \<and>
     subseq (map fst rows) D"
  by (simp add: correlate_eq comp_def)

text \<open>
  Claim C6. Neither callback changes the table: in every store in which \<^verbatim>\<open>spacex_data\<close>
  has been created, the frame \<^verbatim>\<open>spacex_data\<close> refers to is the same after a call of
  \<^verbatim>\<open>update_success_chart\<close> or of \<^verbatim>\<open>update_correlation_chart\<close> as before it, for all
  arguments (also a payload range that makes the call raise). The column
  \<^verbatim>\<open>Outcome\<close> is written into the frame a boolean selection has created, never into
  the table.
\<close>

theorem callbacks_keep_dataset:
  assumes "spacex_data < next_ref h"
  shows "cells (snd (update_success_chart selected_site h)) spacex_data = cells h spacex_data \<and>
         cells (snd (update_correlation_chart selected_site payload_range h)) spacex_data = cells h spacex_data"
  using assms by (simp add: heap_success heap_correlation)

lemma example_flags: "\<forall>r\<in>set example_D. class_flag r \<in> {0, 1}"
  by (simp add: example_D_def)

text \<open>The same at the example table, where every hypothesis holds.\<close>

theorem summarize_all_success_total_witness:
  "class_flag ` set example_D \<subseteq> {0, 1} \<and>
   (\<exists>t. summarize example_D ''ALL'' = Result_df t \<and>
        sum_list (map (\<lambda>(site, success_total, record_total). success_total) t) = 2)"
proof -
  have "int (length (filter (\<lambda>r. class_flag r = 1) example_D)) = 2"
    by (simp add: example_D_def)
  then show ?thesis using summarize_all_success_total [OF example_flags] example_flags by auto
qed

text \<open>The same at the example table, where every hypothesis holds.\<close>

theorem summarize_all_tuple_invariant_witness:
  "class_flag ` set example_D \<subseteq> {0, 1} \<and>
   (\<exists>t. summarize example_D ''ALL'' = Result_df t \<and> t \<noteq> [] \<and>
        (\<forall>(site, success_total, record_total) \<in> set t.
               0 \<le> success_total \<and> success_total \<le> int record_total \<and> 1 \<le> record_total) \<and>
        distinct (map fst t))"
proof -
  have "summarize example_D ''ALL'' = Result_df [(''A'', 1, 2), (''B'', 1, 1)]"
    by (simp add: summarize_def update_success_chart_def read_csv_def spacex_data_def
        example_D_def groupby_sum_def groupby_size_def group_keys_def merge_def unique_def)
  then show ?thesis using summarize_all_tuple_invariant [OF example_flags] example_flags by auto
qed

text \<open>The same at the example table, where every hypothesis holds.\<close>

theorem summarize_all_one_tuple_per_site_witness:
  "summarize example_D ''ALL'' = Result_df [(''A'', 1, 2), (''B'', 1, 1)]"
  using summarize_all_one_tuple_per_site [of example_D] by (simp add: group_keys_def unique_def example_D_def)

text \<open>The same at the example table, where every hypothesis holds.\<close>

theorem summarize_site_outcomes_witness:
  "''A'' \<noteq> ''ALL'' \<and> class_flag ` set example_D \<subseteq> {0, 1} \<and>
   (\<exists>es. summarize example_D ''A'' = Outcomes es \<and>
      (Some ''Success'', 1) \<in> set es \<and> (Some ''Failure'', 1) \<in> set es \<and>
      (Some ''Success'', 2) \<notin> set es \<and>
      sum_list (map snd es) = 2 \<and> distinct (map fst es))"
proof -
  have ne: "''A'' \<noteq> ''ALL''" by simp
  have "length (filter (\<lambda>r. Launch_Site r = ''A'') example_D) = 2"
    and "length (filter (\<lambda>r. Launch_Site r = ''A'' \<and> class_flag r = 1) example_D) = 1"
    and "length (filter (\<lambda>r. Launch_Site r = ''A'' \<and> class_flag r = 0) example_D) = 1"
    by (simp_all add: example_D_def)
  then show ?thesis
    using summarize_site_outcomes [OF ne example_flags] example_flags by auto
qed

text \<open>The same at the example table, where every hypothesis holds.\<close>

theorem summarize_unknown_site_empty_witness:
  "''Z'' \<noteq> ''ALL'' \<and> ''Z'' \<notin> set (launch_sites (read_csv example_D)) \<and>
   summarize example_D ''Z'' = Outcomes []"
proof -
  have ne: "''Z'' \<noteq> ''ALL''" by simp
  have absent: "''Z'' \<notin> set (launch_sites (read_csv example_D))"
    by (simp add: launch_sites_def read_csv_def unique_def example_D_def)
  show ?thesis using summarize_unknown_site_empty [OF ne absent] absent by simp
qed

lemma example_payloads: "\<forall>r\<in>set example_D. converts_exactly (Payload_Mass r)"
  by (simp add: example_D_def)

text \<open>The same at the example table, where every hypothesis holds.\<close>

theorem correlate_inverted_range_empty_witness:
  "value_of (IntNum 3000) > value_of (FloatNum 0) \<and>
   list_all (\<lambda>r. converts_exactly (Payload_Mass r)) example_D \<and>
   correlate example_D ''ALL'' (IntNum 3000) (FloatNum 0) = Inr (With_Outcome [])"
proof -
  have gt: "value_of (IntNum 3000) > value_of (FloatNum 0)" by simp
  have a: "converts_exactly (IntNum 3000)" and b: "converts_exactly (FloatNum 0)" by simp_all
  show ?thesis
    using correlate_inverted_range_empty [OF gt a b example_payloads, of "''ALL''"] example_payloads
    by (simp add: list_all_iff)
qed

text \<open>
  The claim as stated fails where an integer payload is compared in float64. The table
  \<open>big_D\<close> has one row, of payload \<open>2 ^ 53 + 1\<close>, and the range is \<open>a = 2 ^ 53 + 1\<close>, an integer,
  to \<open>b = 2 ^ 53\<close>, a float: \<open>a > b\<close>, and the row is returned, because the upper test
  rounds the payload to \<open>2 ^ 53\<close>.
\<close>

theorem correlate_inverted_range_not_empty:
  "value_of (IntNum 9007199254740993) > value_of (FloatNum 9007199254740992) \<and>
   correlate big_D ''ALL'' (IntNum 9007199254740993) (FloatNum 9007199254740992)
     \<noteq> Inr (With_Outcome [])"
  by (simp add: correlate_eq big_D_def float64_of_int_example)

lemma correlate_example_A:
  "correlate example_D ''A'' (IntNum 0) (FloatNum 3000) =
     Inr (With_Outcome [(\<lparr>Launch_Site = ''A'', Payload_Mass = IntNum 2000,
       Booster_Version_Category = ''v1'', Booster_Version = ''v1'', class_flag = 1\<rparr>, Some ''Success'')])"
  by (simp add: correlate_eq example_D_def map_outcome_def float64_of_int_small)

text \<open>The same at the example table, where every hypothesis holds.\<close>

theorem correlate_rows_within_range_and_site_witness:
  "\<exists>rows. correlate example_D ''A'' (IntNum 0) (FloatNum 3000) = Inr (With_Outcome rows) \<and>
     rows \<noteq> [] \<and>
     (\<forall>row \<in> set rows. 0 \<le> value_of (Payload_Mass (fst row)) \<and>
                        value_of (Payload_Mass (fst row)) \<le> 3000 \<and>
                        (''A'' = ''ALL'' \<or> Launch_Site (fst row) = ''A''))"
proof -
  have a: "converts_exactly (IntNum 0)" and b: "converts_exactly (FloatNum 3000)" by simp_all
  show ?thesis
    using correlate_rows_within_range_and_site [OF a b example_payloads, of "''A''"]
    by (auto simp: correlate_example_A)
qed

text \<open>
  The claim as stated fails on the same one-row table with the range from \<open>2 ^ 53\<close> to
  \<open>2 ^ 53\<close>, both floats: the bounds are ordered, and the row of payload \<open>2 ^ 53 + 1\<close>
  is returned although its payload is above the upper bound.
\<close>

theorem correlate_returns_row_outside_range:
  "value_of (FloatNum 9007199254740992) \<le> value_of (FloatNum 9007199254740992) \<and>
   (\<exists>rows. correlate big_D ''ALL'' (FloatNum 9007199254740992) (FloatNum 9007199254740992)
              = Inr (With_Outcome rows) \<and>
           (\<exists>row \<in> set rows.
              \<not> value_of (Payload_Mass (fst row)) \<le> value_of (FloatNum 9007199254740992)))"
  by (simp add: correlate_eq big_D_def float64_of_int_example)

text \<open>The same at the example table.\<close>

theorem correlate_preserves_order_witness:
  "\<exists>rows. correlate example_D ''ALL'' (IntNum 0) (FloatNum 3000) = Inr (With_Outcome rows) \<and>
     map fst rows = [example_D ! 0, example_D ! 2] \<and> subseq (map fst rows) example_D"
proof -
  have "filter (\<lambda>r. le_number (IntNum 0) (Payload_Mass r) \<and> le_number (Payload_Mass r) (FloatNum 3000) \<and>
                    (''ALL'' = ''ALL'' \<or> Launch_Site r = ''ALL'')) example_D
        = [example_D ! 0, example_D ! 2]"
    by (simp add: example_D_def float64_of_int_small)
  then show ?thesis
    using correlate_preserves_order [of example_D "''ALL''" "IntNum 0" "FloatNum 3000"] by simp
qed

text \<open>The same at the example table, where every hypothesis holds.\<close>

theorem callbacks_keep_dataset_witness:
  "spacex_data < next_ref (read_csv example_D) \<and>
   cells (snd (update_success_chart ''A'' (read_csv example_D))) spacex_data = Plain example_D \<and>
   cells (snd (update_correlation_chart ''A'' [IntNum 0, FloatNum 3000] (read_csv example_D))) spacex_data = Plain example_D"
proof -
  have alloc: "spacex_data < next_ref (read_csv example_D)"
    by (simp add: read_csv_def)
  have "cells (read_csv example_D) spacex_data = Plain example_D"
    by (simp add: read_csv_def)
  then show ?thesis using callbacks_keep_dataset [OF alloc, of "''A''" "[IntNum 0, FloatNum 3000]"] alloc by simp
qed

text \<open>
  Claim C9, as amended. On the three-row example table, \<open>summarize example_D ''A''\<close> is
  the sequence \<open>Success\<close> with count 1, then \<open>Failure\<close> with count 1: the two counts
  are equal, and entries of equal count stay in order of first appearance; the first
  row of site A has \<^verbatim>\<open>class\<close> 1.
\<close>

theorem summarize_example_site_A:
  "summarize example_D ''A'' = Outcomes [(Some ''Success'', 1), (Some ''Failure'', 1)]"
  by (simp add: summarize_def update_success_chart_def read_csv_def spacex_data_def
      getitem_mask_def alloc_def example_D_def value_counts_def unique_def map_outcome_def)

text \<open>
  The order the worked example gives, \<open>Failure\<close> before \<open>Success\<close>, is not the order
  of the result.
\<close>

theorem summarize_example_site_A_not_failure_first:
  "summarize example_D ''A'' \<noteq> Outcomes [(Some ''Failure'', 1), (Some ''Success'', 1)]"
  by (simp add: summarize_def update_success_chart_def read_csv_def spacex_data_def
      getitem_mask_def alloc_def example_D_def value_counts_def unique_def map_outcome_def)

text \<open>
  The order of the grouping is by site name, not by first appearance: a table that lists
  site B before site A is summarised with A first.
\<close>

lemma summarize_all_orders_by_site_name:
  "summarize
     [\<lparr>Launch_Site = ''B'', Payload_Mass = IntNum 500, Booster_Version_Category = ''v1'',
       Booster_Version = ''v1'', class_flag = 1\<rparr>,
      \<lparr>Launch_Site = ''A'', Payload_Mass = IntNum 2000, Booster_Version_Category = ''v1'',
       Booster_Version = ''v1'', class_flag = 0\<rparr>] ''ALL''
   = Result_df [(''A'', 0, 1), (''B'', 1, 1)]"
  by (simp add: summarize_def update_success_chart_def read_csv_def spacex_data_def
      groupby_sum_def groupby_size_def group_keys_def merge_def unique_def)

end
